theory Spec2Isabelle
  imports Complex_Main
begin

section \<open>Ticket and payment lifecycle of the customer-engagement backend\<close>

text \<open>
  A shallow embedding of the two Mongoose models that carry the lifecycle logic:
  \<^item> \<^verbatim>\<open>src/unnamed/part_004\<close> (the Payment model: pre-save hook, \<^verbatim>\<open>initiateRefund\<close>,
    \<^verbatim>\<open>updateStatus\<close>);
  \<^item> \<^verbatim>\<open>src/backend/models/SupportRequest.js\<close> (the ticket model: pre-save hook,
    \<^verbatim>\<open>addComment\<close>, \<^verbatim>\<open>assignToAgent\<close>, \<^verbatim>\<open>resolve\<close>, \<^verbatim>\<open>reopen\<close>, \<^verbatim>\<open>addRating\<close>).

  Conventions of the embedding.
  \<^item> A document is a record of the fields the hooks and methods read or write. A method
    mutates \<^verbatim>\<open>this\<close> and ends in \<^verbatim>\<open>this.save()\<close>; here it takes the document and returns
    the document after the save.
  \<^item> A \<^verbatim>\<open>Date\<close> is its number of milliseconds since the epoch (an \<open>int\<close>); an unset
    optional field (\<^verbatim>\<open>undefined\<close>) is \<open>None\<close>. A \<^verbatim>\<open>Number\<close> holding an amount or a
    duration in hours is a \<open>real\<close>; a counter is an \<open>int\<close>.
  \<^item> What an operation reads from outside the document (the clock, \<^verbatim>\<open>Math.random\<close>,
    \<^verbatim>\<open>countDocuments\<close>) is an explicit environment \<open>env\<close>. All the \<^verbatim>\<open>new Date()\<close> calls of
    one operation, and the \<^verbatim>\<open>createdAt\<close> stamp of the schema option \<^verbatim>\<open>timestamps: true\<close>
    applied in the same save, read the same instant.
  \<^item> A \<^verbatim>\<open>throw\<close> is the result \<open>Thrown\<close>, carrying the error and the document as it was
    when the exception left the method. Failures of the store itself and of schema
    validation are not part of the model: enumerated strings are datatypes, so only
    values of the enumeration can be passed.
\<close>

subsection \<open>Shared values\<close>

text \<open>The \<^verbatim>\<open>Date\<close> returned by \<^verbatim>\<open>new Date()\<close>, with the getters the hooks call.\<close>

record date =
  getTime :: int
  getFullYear :: nat
  getMonth :: nat

record env =
  now :: date
  rand :: nat
  countDocuments :: nat

text \<open>
  \<open>rand\<close> is the value of \<^verbatim>\<open>Math.floor(Math.random() * 10000)\<close>, a whole number from 0
  to 9999; \<open>getMonth\<close> counts from 0.
\<close>

datatype error =
  CanOnlyRefundSuccessful
  | RefundExceedsAmount
  | CanOnlyRateResolvedOrClosed

datatype 'd result = Saved 'd | Thrown error 'd

fun doc_of :: "'d result \<Rightarrow> 'd" where
  "doc_of (Saved d) = d"
| "doc_of (Thrown e d) = d"

fun thrown :: "'d result \<Rightarrow> bool" where
  "thrown (Saved d) = False"
| "thrown (Thrown e d) = True"

text \<open>JavaScript truthiness of an optional string: \<^verbatim>\<open>undefined\<close> and \<^verbatim>\<open>''\<close> are falsy.\<close>

fun truthy :: "string option \<Rightarrow> bool" where
  "truthy None = False"
| "truthy (Some s) = (s \<noteq> [])"

text \<open>\<^verbatim>\<open>x || dflt\<close> on an optional string.\<close>

fun or_else :: "string option \<Rightarrow> string \<Rightarrow> string" where
  "or_else None dflt = dflt"
| "or_else (Some s) dflt = (if s = [] then dflt else s)"

text \<open>\<^verbatim>\<open>String(n)\<close> for a non-negative whole number, and \<^verbatim>\<open>s.padStart(k, '0')\<close>.\<close>

definition digit :: "nat \<Rightarrow> char" where
  "digit d = char_of (48 + d)"

fun toString :: "nat \<Rightarrow> string" where
  "toString n = (if n < 10 then [digit n] else toString (n div 10) @ [digit (n mod 10)])"

declare toString.simps [simp del]

definition padStart :: "nat \<Rightarrow> string \<Rightarrow> string" where
  "padStart k s = replicate (k - length s) CHR ''0'' @ s"

subsection \<open>The Payment model (src/unnamed/part_004)\<close>

datatype payment_status = Pending | Processing | Success | Failed | Refunded

datatype refund_status = Initiated | RefundProcessing | Completed | RefundFailed

record refund =
  rf_amount :: real
  rf_reason :: string
  rf_date :: int
  rf_refundId :: "string option"
  rf_status :: refund_status

record gateway =
  provider :: string
  orderId :: "string option"
  paymentId :: "string option"
  signature :: "string option"
  transactionId :: "string option"

text \<open>The second argument of \<^verbatim>\<open>updateStatus\<close>; \<^verbatim>\<open>{}\<close> is \<open>no_details\<close>.\<close>

record details =
  d_paymentId :: "string option"
  d_signature :: "string option"
  d_reason :: "string option"

definition no_details :: details where
  "no_details = \<lparr>d_paymentId = None, d_signature = None, d_reason = None\<rparr>"

text \<open>
  \<open>pay_isNew\<close> is Mongoose's \<^verbatim>\<open>this.isNew\<close>; \<open>pay_statusModified\<close> is what
  \<^verbatim>\<open>this.isModified('status')\<close> returns. Both are reset by a save.
\<close>

record payment =
  amount :: real
  pay_status :: payment_status
  gatewayDetails :: gateway
  receiptNumber :: "string option"
  refundDetails :: "refund option"
  failureReason :: "string option"
  paidAt :: "int option"
  attempts :: int
  pay_isNew :: bool
  pay_statusModified :: bool

text \<open>
  The assignment \<^verbatim>\<open>this.status = s\<close>. Mongoose marks the path modified when the document
  is new or the value differs from the one it held; a mark already there stays.
\<close>

definition set_status :: "payment_status \<Rightarrow> payment \<Rightarrow> payment" where
  "set_status s p =
     p\<lparr>pay_status := s,
       pay_statusModified := (pay_statusModified p \<or> pay_isNew p \<or> pay_status p \<noteq> s)\<rparr>"

text \<open>\<^verbatim>\<open>`REC${year}${month}${random}`\<close> of the pre-save hook (lines 117-121).\<close>

definition receipt :: "env \<Rightarrow> string" where
  "receipt e =
     ''REC'' @ toString (getFullYear (now e))
       @ padStart 2 (toString (getMonth (now e) + 1))
       @ padStart 4 (toString (rand e))"

text \<open>The pre-save hook (lines 115-131), its two statements in order.\<close>

definition generateReceipt :: "env \<Rightarrow> payment \<Rightarrow> payment" where
  "generateReceipt e p =
     (if pay_status p = Success \<and> \<not> truthy (receiptNumber p)
      then p\<lparr>receiptNumber := Some (receipt e), paidAt := Some (getTime (now e))\<rparr>
      else p)"

definition countAttempt :: "payment \<Rightarrow> payment" where
  "countAttempt p =
     (if pay_statusModified p \<and> pay_status p = Failed
      then p\<lparr>attempts := attempts p + 1\<rparr>
      else p)"

definition pre_save_payment :: "env \<Rightarrow> payment \<Rightarrow> payment" where
  "pre_save_payment e p = countAttempt (generateReceipt e p)"

text \<open>\<^verbatim>\<open>this.save()\<close>: the hook runs, then the document is persisted and its marks reset.\<close>

definition save_payment :: "env \<Rightarrow> payment \<Rightarrow> payment result" where
  "save_payment e p =
     Saved ((pre_save_payment e p)\<lparr>pay_isNew := False, pay_statusModified := False\<rparr>)"

text \<open>\<^verbatim>\<open>initiateRefund(amount, reason)\<close> (lines 134-151).\<close>

definition initiateRefund :: "env \<Rightarrow> real \<Rightarrow> string \<Rightarrow> payment \<Rightarrow> payment result" where
  "initiateRefund e amt reason p =
     (if pay_status p \<noteq> Success then Thrown CanOnlyRefundSuccessful p
      else if amt > amount p then Thrown RefundExceedsAmount p
      else save_payment e
        (p\<lparr>refundDetails :=
             Some \<lparr>rf_amount = amt, rf_reason = reason, rf_date = getTime (now e),
                   rf_refundId = None, rf_status = Initiated\<rparr>\<rparr>))"

text \<open>\<^verbatim>\<open>updateStatus(status, details = {})\<close> (lines 154-171).\<close>

definition storeGatewayIds :: "details \<Rightarrow> gateway \<Rightarrow> gateway" where
  "storeGatewayIds d g =
     (let g1 = (if truthy (d_paymentId d) then g\<lparr>paymentId := d_paymentId d\<rparr> else g)
      in if truthy (d_signature d) then g1\<lparr>signature := d_signature d\<rparr> else g1)"

definition updateStatus :: "env \<Rightarrow> payment_status \<Rightarrow> details \<Rightarrow> payment \<Rightarrow> payment result" where
  "updateStatus e s d p =
     (let p1 = set_status s p;
          p2 = (if s = Success
                then p1\<lparr>paidAt := Some (getTime (now e)),
                        gatewayDetails := storeGatewayIds d (gatewayDetails p1)\<rparr>
                else if s = Failed
                then p1\<lparr>failureReason := Some (or_else (d_reason d) ''Payment failed''),
                        attempts := attempts p1 + 1\<rparr>
                else p1)
      in save_payment e p2)"

subsection \<open>The SupportRequest model (src/backend/models/SupportRequest.js)\<close>

datatype ticket_status = Open | InReview | PendingCustomer | Resolved | Closed

datatype priority = Low | Medium | High | Urgent

datatype role = Customer | Admin

text \<open>
  A path declared \<^verbatim>\<open>ObjectId, ref: 'User'\<close> holds the bare id, or the user document when
  it has been populated. Only a populated reference has a \<^verbatim>\<open>role\<close>: on a bare id
  \<^verbatim>\<open>author.role\<close> is \<^verbatim>\<open>undefined\<close>.
\<close>

datatype user_ref = ObjectId nat | Populated nat role

fun role_of :: "user_ref \<Rightarrow> role option" where
  "role_of (ObjectId i) = None"
| "role_of (Populated i r) = Some r"

record comment =
  c_text :: string
  c_author :: user_ref
  c_isInternal :: bool
  c_attachments :: "(string \<times> string) list"
  c_createdAt :: int

record resolution_rec =
  r_text :: "string option"
  resolvedBy :: "user_ref option"
  resolvedAt :: "int option"

text \<open>The empty object \<^verbatim>\<open>{}\<close> assigned to \<^verbatim>\<open>this.resolution\<close>.\<close>

definition no_resolution :: resolution_rec where
  "no_resolution = \<lparr>r_text = None, resolvedBy = None, resolvedAt = None\<rparr>"

record rating_rec =
  score :: int
  feedback :: "string option"
  ratedAt :: int

record sla_rec =
  responseTime :: "real option"
  resolutionTime :: "real option"
  breached :: bool
  responseDeadline :: "int option"
  resolutionDeadline :: "int option"

record ticket =
  customerId :: user_ref
  ticketNumber :: string
  priority :: priority
  status :: ticket_status
  assignedTo :: "user_ref option"
  comments :: "comment list"
  resolution :: resolution_rec
  rating :: "rating_rec option"
  sla :: sla_rec
  firstResponseAt :: "int option"
  closedAt :: "int option"
  reopenedCount :: int
  lastReopenedAt :: "int option"
  createdAt :: "int option"
  isNew :: bool

text \<open>
  \<^verbatim>\<open>Math.abs(new Date(a) - new Date(this.createdAt)) / (1000 * 60 * 60)\<close>. Without a
  \<^verbatim>\<open>createdAt\<close> the JavaScript value is \<^verbatim>\<open>NaN\<close>, which is no number: \<open>None\<close>.
\<close>

definition elapsedHours :: "int \<Rightarrow> int option \<Rightarrow> real option" where
  "elapsedHours a created =
     (case created of
        None \<Rightarrow> None
      | Some c \<Rightarrow> Some (\<bar>real_of_int (a - c)\<bar> / (1000 * 60 * 60)))"

text \<open>The pre-save hook (lines 151-220), one definition for each of its blocks.\<close>

definition generateTicketNumber :: "env \<Rightarrow> ticket \<Rightarrow> ticket" where
  "generateTicketNumber e t =
     (if isNew t \<and> ticketNumber t = []
      then t\<lparr>ticketNumber :=
               ''TKT'' @ toString (getFullYear (now e))
                 @ padStart 2 (toString (getMonth (now e) + 1))
                 @ padStart 5 (toString (countDocuments e + 1))\<rparr>
      else t)"

text \<open>
  The \<^verbatim>\<open>switch\<close> on the priority (lines 165-185). Its initial values 24 and 72 stay only
  for a priority outside the enumeration, which the schema does not admit.
\<close>

definition responseHours :: "priority \<Rightarrow> int" where
  "responseHours pr = (case pr of Urgent \<Rightarrow> 2 | High \<Rightarrow> 4 | Medium \<Rightarrow> 24 | Low \<Rightarrow> 48)"

definition resolutionHours :: "priority \<Rightarrow> int" where
  "resolutionHours pr = (case pr of Urgent \<Rightarrow> 24 | High \<Rightarrow> 48 | Medium \<Rightarrow> 72 | Low \<Rightarrow> 120)"

definition setSlaDeadlines :: "env \<Rightarrow> ticket \<Rightarrow> ticket" where
  "setSlaDeadlines e t =
     (if isNew t
      then t\<lparr>sla := (sla t)
               \<lparr>responseDeadline :=
                  Some (getTime (now e) + responseHours (priority t) * 60 * 60 * 1000),
                resolutionDeadline :=
                  Some (getTime (now e) + resolutionHours (priority t) * 60 * 60 * 1000)\<rparr>\<rparr>
      else t)"

definition adminComments :: "ticket \<Rightarrow> comment list" where
  "adminComments t =
     filter (\<lambda>c. \<not> c_isInternal c \<or> role_of (c_author c) = Some Admin) (comments t)"

definition trackFirstResponse :: "ticket \<Rightarrow> ticket" where
  "trackFirstResponse t =
     (if comments t \<noteq> [] \<and> firstResponseAt t = None
      then (case adminComments t of
              [] \<Rightarrow> t
            | c # cs \<Rightarrow>
                t\<lparr>firstResponseAt := Some (c_createdAt c),
                  sla := (sla t)\<lparr>responseTime := elapsedHours (c_createdAt c) (createdAt t)\<rparr>\<rparr>)
      else t)"

definition trackResolution :: "env \<Rightarrow> ticket \<Rightarrow> ticket" where
  "trackResolution e t =
     (if status t = Resolved \<and> resolvedAt (resolution t) = None
      then t\<lparr>resolution := (resolution t)\<lparr>resolvedAt := Some (getTime (now e))\<rparr>,
             sla := (sla t)\<lparr>resolutionTime := elapsedHours (getTime (now e)) (createdAt t)\<rparr>\<rparr>
      else t)"

definition trackClosure :: "env \<Rightarrow> ticket \<Rightarrow> ticket" where
  "trackClosure e t =
     (if status t = Closed \<and> closedAt t = None
      then t\<lparr>closedAt := Some (getTime (now e))\<rparr>
      else t)"

definition responseBreach :: "env \<Rightarrow> ticket \<Rightarrow> ticket" where
  "responseBreach e t =
     (case responseDeadline (sla t) of
        None \<Rightarrow> t
      | Some d \<Rightarrow>
          if getTime (now e) > d \<and> firstResponseAt t = None
          then t\<lparr>sla := (sla t)\<lparr>breached := True\<rparr>\<rparr>
          else t)"

definition resolutionBreach :: "env \<Rightarrow> ticket \<Rightarrow> ticket" where
  "resolutionBreach e t =
     (case resolutionDeadline (sla t) of
        None \<Rightarrow> t
      | Some d \<Rightarrow>
          if getTime (now e) > d \<and> status t \<noteq> Resolved \<and> status t \<noteq> Closed
          then t\<lparr>sla := (sla t)\<lparr>breached := True\<rparr>\<rparr>
          else t)"

definition pre_save_ticket :: "env \<Rightarrow> ticket \<Rightarrow> ticket" where
  "pre_save_ticket e t =
     resolutionBreach e (responseBreach e (trackClosure e (trackResolution e
       (trackFirstResponse (setSlaDeadlines e (generateTicketNumber e t))))))"

text \<open>
  The schema option \<^verbatim>\<open>timestamps: true\<close> (line 116): a new document that brings no
  \<^verbatim>\<open>createdAt\<close> is stamped before the hook above runs.
\<close>

definition stampCreatedAt :: "env \<Rightarrow> ticket \<Rightarrow> ticket" where
  "stampCreatedAt e t =
     (if isNew t \<and> createdAt t = None then t\<lparr>createdAt := Some (getTime (now e))\<rparr> else t)"

definition save_ticket :: "env \<Rightarrow> ticket \<Rightarrow> ticket result" where
  "save_ticket e t = Saved ((pre_save_ticket e (stampCreatedAt e t))\<lparr>isNew := False\<rparr>)"

text \<open>\<^verbatim>\<open>addComment(text, authorId, isInternal = false, attachments = [])\<close> (lines 223-231).\<close>

definition addComment ::
  "env \<Rightarrow> string \<Rightarrow> user_ref \<Rightarrow> bool \<Rightarrow> (string \<times> string) list \<Rightarrow> ticket \<Rightarrow> ticket result" where
  "addComment e txt authorId internal atts t =
     save_ticket e
       (t\<lparr>comments := comments t @
            [\<lparr>c_text = txt, c_author = authorId, c_isInternal = internal,
              c_attachments = atts, c_createdAt = getTime (now e)\<rparr>]\<rparr>)"

text \<open>\<^verbatim>\<open>assignToAgent(agentId)\<close> (lines 234-238).\<close>

definition assignToAgent :: "env \<Rightarrow> user_ref \<Rightarrow> ticket \<Rightarrow> ticket result" where
  "assignToAgent e agentId t = save_ticket e (t\<lparr>assignedTo := Some agentId, status := InReview\<rparr>)"

text \<open>\<^verbatim>\<open>resolve(resolutionText, resolvedById)\<close> (lines 241-249).\<close>

definition resolve :: "env \<Rightarrow> string \<Rightarrow> user_ref \<Rightarrow> ticket \<Rightarrow> ticket result" where
  "resolve e resolutionText resolvedById t =
     save_ticket e
       (t\<lparr>status := Resolved,
          resolution := \<lparr>r_text = Some resolutionText, resolvedBy = Some resolvedById,
                         resolvedAt = Some (getTime (now e))\<rparr>\<rparr>)"

text \<open>\<^verbatim>\<open>reopen(reason)\<close> (lines 252-268); \<^verbatim>\<open>reopen()\<close> is the reason \<open>None\<close>.\<close>

definition reopen :: "env \<Rightarrow> string option \<Rightarrow> ticket \<Rightarrow> ticket result" where
  "reopen e reason t =
     save_ticket e
       (if status t = Closed \<or> status t = Resolved
        then (let t1 = t\<lparr>status := Open, reopenedCount := reopenedCount t + 1,
                         lastReopenedAt := Some (getTime (now e)),
                         resolution := no_resolution\<rparr>
              in if truthy reason
                 then t1\<lparr>comments := comments t1 @
                          [\<lparr>c_text = ''Ticket reopened: '' @ or_else reason [],
                            c_author = customerId t1, c_isInternal = False,
                            c_attachments = [], c_createdAt = getTime (now e)\<rparr>]\<rparr>
                 else t1)
        else t)"

text \<open>\<^verbatim>\<open>addRating(score, feedback)\<close> (lines 271-282).\<close>

definition addRating :: "env \<Rightarrow> int \<Rightarrow> string option \<Rightarrow> ticket \<Rightarrow> ticket result" where
  "addRating e sc fb t =
     (if status t \<noteq> Resolved \<and> status t \<noteq> Closed then Thrown CanOnlyRateResolvedOrClosed t
      else save_ticket e
        (t\<lparr>rating := Some \<lparr>score = sc, feedback = fb, ratedAt = getTime (now e)\<rparr>\<rparr>))"

text \<open>
  Creation, as the route \<^verbatim>\<open>POST /api/support/requests\<close> does it
  (src/backend/routes/supportRoutes.js, lines 34-46): a new document with the schema's
  defaults, \<^verbatim>\<open>priority: priority || 'medium'\<close> and the placeholder ticket number, saved.
\<close>

definition newSupportRequest :: "user_ref \<Rightarrow> priority option \<Rightarrow> ticket" where
  "newSupportRequest cid pr =
     \<lparr>customerId = cid, ticketNumber = ''temp'',
      priority = (case pr of None \<Rightarrow> Medium | Some q \<Rightarrow> q),
      status = Open, assignedTo = None, comments = [], resolution = no_resolution,
      rating = None,
      sla = \<lparr>responseTime = None, resolutionTime = None, breached = False,
             responseDeadline = None, resolutionDeadline = None\<rparr>,
      firstResponseAt = None, closedAt = None, reopenedCount = 0, lastReopenedAt = None,
      createdAt = None, isNew = True\<rparr>"

definition createRequest :: "env \<Rightarrow> user_ref \<Rightarrow> priority option \<Rightarrow> ticket result" where
  "createRequest e cid pr = save_ticket e (newSupportRequest cid pr)"

text \<open>What is fixed when a ticket is created: the two SLA deadlines and \<^verbatim>\<open>createdAt\<close>.\<close>

definition deadlines :: "ticket \<Rightarrow> int option \<times> int option \<times> int option" where
  "deadlines t = (responseDeadline (sla t), resolutionDeadline (sla t), createdAt t)"

subsection \<open>Sequences of lifecycle operations\<close>

datatype ticket_op =
  AddComment string user_ref bool "(string \<times> string) list"
  | AssignToAgent user_ref
  | Resolve string user_ref
  | Reopen "string option"
  | AddRating int "string option"
  | SaveTicket

fun apply_ticket_op :: "env \<Rightarrow> ticket_op \<Rightarrow> ticket \<Rightarrow> ticket result" where
  "apply_ticket_op e (AddComment txt a i atts) t = addComment e txt a i atts t"
| "apply_ticket_op e (AssignToAgent a) t = assignToAgent e a t"
| "apply_ticket_op e (Resolve txt a) t = resolve e txt a t"
| "apply_ticket_op e (Reopen r) t = reopen e r t"
| "apply_ticket_op e (AddRating sc fb) t = addRating e sc fb t"
| "apply_ticket_op e SaveTicket t = save_ticket e t"

text \<open>Operations one after the other, each in its own environment.\<close>

fun run_ticket_ops :: "(env \<times> ticket_op) list \<Rightarrow> ticket \<Rightarrow> ticket" where
  "run_ticket_ops [] t = t"
| "run_ticket_ops ((e, x) # xs) t = run_ticket_ops xs (doc_of (apply_ticket_op e x t))"

datatype payment_op =
  UpdateStatus payment_status details
  | InitiateRefund real string
  | SavePayment

fun apply_payment_op :: "env \<Rightarrow> payment_op \<Rightarrow> payment \<Rightarrow> payment result" where
  "apply_payment_op e (UpdateStatus s d) p = updateStatus e s d p"
| "apply_payment_op e (InitiateRefund a r) p = initiateRefund e a r p"
| "apply_payment_op e SavePayment p = save_payment e p"

fun run_payment_ops :: "(env \<times> payment_op) list \<Rightarrow> payment \<Rightarrow> payment" where
  "run_payment_ops [] p = p"
| "run_payment_ops ((e, x) # xs) p = run_payment_ops xs (doc_of (apply_payment_op e x p))"

subsection \<open>Sample documents\<close>

definition env_at :: "int \<Rightarrow> env" where
  "env_at ms =
     \<lparr>now = \<lparr>getTime = ms, getFullYear = 2024, getMonth = 2\<rparr>, rand = 42, countDocuments = 7\<rparr>"

definition no_gateway :: gateway where
  "no_gateway = \<lparr>provider = ''razorpay'', orderId = None, paymentId = None, signature = None,
                 transactionId = None\<rparr>"

text \<open>A stored payment of 100000 awaiting payment, and the same payment once paid.\<close>

definition pending_payment :: payment where
  "pending_payment =
     \<lparr>amount = 100000, pay_status = Pending, gatewayDetails = no_gateway,
      receiptNumber = None, refundDetails = None, failureReason = None, paidAt = None,
      attempts = 0, pay_isNew = False, pay_statusModified = False\<rparr>"

definition paid_payment :: payment where
  "paid_payment =
     pending_payment\<lparr>pay_status := Success, receiptNumber := Some ''REC2024030042'',
                     paidAt := Some 1000\<rparr>"

text \<open>
  A stored ticket of high priority created at time 0, open and without comments, and the
  same ticket as stored after an earlier resolution.
\<close>

definition open_ticket :: ticket where
  "open_ticket =
     \<lparr>customerId = ObjectId 1, ticketNumber = ''temp'', priority = High, status = Open,
      assignedTo = None, comments = [], resolution = no_resolution, rating = None,
      sla = \<lparr>responseTime = None, resolutionTime = None, breached = False,
             responseDeadline = Some 14400000, resolutionDeadline = Some 172800000\<rparr>,
      firstResponseAt = None, closedAt = None, reopenedCount = 0, lastReopenedAt = None,
      createdAt = Some 0, isNew = False\<rparr>"

definition resolved_ticket :: ticket where
  "resolved_ticket =
     open_ticket\<lparr>status := Resolved,
                 resolution := \<lparr>r_text = Some ''first answer'', resolvedBy = Some (ObjectId 9),
                                resolvedAt = Some 3600000\<rparr>\<rparr>"

text \<open>The open ticket with its breach flag already set.\<close>

definition breached_ticket :: ticket where
  "breached_ticket = open_ticket\<lparr>sla := (sla open_ticket)\<lparr>breached := True\<rparr>\<rparr>"

section \<open>Payment lifecycle\<close>

subsection \<open>Refunds\<close>

text \<open>
  C6. \<^verbatim>\<open>initiateRefund(amount, reason)\<close> throws, with the payment as it was, when the status
  is not \<^verbatim>\<open>success\<close> or when the amount is larger than the payment's amount; in every
  other case it saves the payment with \<^verbatim>\<open>refundDetails\<close> holding the given amount and
  reason and the status \<^verbatim>\<open>initiated\<close>.
\<close>

theorem initiateRefund_spec:
  "(pay_status p \<noteq> Success \<longrightarrow> initiateRefund e amt reason p = Thrown CanOnlyRefundSuccessful p)
   \<and> (pay_status p = Success \<and> amt > amount p \<longrightarrow>
        initiateRefund e amt reason p = Thrown RefundExceedsAmount p)
   \<and> (pay_status p = Success \<and> amt \<le> amount p \<longrightarrow>
        \<not> thrown (initiateRefund e amt reason p)
        \<and> refundDetails (doc_of (initiateRefund e amt reason p)) =
            Some \<lparr>rf_amount = amt, rf_reason = reason, rf_date = getTime (now e),
                  rf_refundId = None, rf_status = Initiated\<rparr>)"
  by (simp add: initiateRefund_def save_payment_def pre_save_payment_def
      generateReceipt_def countAttempt_def)

theorem initiateRefund_spec_witness:
  "pay_status pending_payment \<noteq> Success
   \<and> initiateRefund (env_at 5000) 50000 ''changed mind'' pending_payment =
       Thrown CanOnlyRefundSuccessful pending_payment
   \<and> pay_status paid_payment = Success \<and> 150000 > amount paid_payment
   \<and> initiateRefund (env_at 5000) 150000 ''changed mind'' paid_payment =
       Thrown RefundExceedsAmount paid_payment
   \<and> 50000 \<le> amount paid_payment
   \<and> \<not> thrown (initiateRefund (env_at 5000) 50000 ''changed mind'' paid_payment)
   \<and> refundDetails (doc_of (initiateRefund (env_at 5000) 50000 ''changed mind'' paid_payment)) =
       Some \<lparr>rf_amount = 50000, rf_reason = ''changed mind'', rf_date = 5000,
             rf_refundId = None, rf_status = Initiated\<rparr>"
  using initiateRefund_spec [of pending_payment "env_at 5000" 50000 "''changed mind''"]
    initiateRefund_spec [of paid_payment "env_at 5000" 150000 "''changed mind''"]
    initiateRefund_spec [of paid_payment "env_at 5000" 50000 "''changed mind''"]
  by (simp add: pending_payment_def paid_payment_def env_at_def)

subsection \<open>Status transitions\<close>

lemma save_payment_status: "pay_status (doc_of (save_payment e p)) = pay_status p"
  by (simp add: save_payment_def pre_save_payment_def generateReceipt_def countAttempt_def)

lemma updateStatus_status: "pay_status (doc_of (updateStatus e s d p)) = s"
  by (simp add: updateStatus_def Let_def set_status_def save_payment_status)

lemma initiateRefund_status: "pay_status (doc_of (initiateRefund e amt reason p)) = pay_status p"
  by (simp add: initiateRefund_def save_payment_status)

text \<open>
  C2, as the specification states it, fails: \<^verbatim>\<open>updateStatus\<close> has no guard, and takes a paid
  payment back to \<^verbatim>\<open>pending\<close>.
\<close>

theorem terminal_status_counterexample:
  "pay_status paid_payment = Success
   \<and> \<not> thrown (updateStatus (env_at 5000) Pending no_details paid_payment)
   \<and> pay_status (doc_of (updateStatus (env_at 5000) Pending no_details paid_payment)) = Pending"
  by (simp add: updateStatus_status)
    (simp add: paid_payment_def updateStatus_def save_payment_def Let_def)

text \<open>
  C2, amended. \<^verbatim>\<open>updateStatus(s, details)\<close> succeeds and sets the status to \<open>s\<close> whatever the
  current status is, terminal or not; \<^verbatim>\<open>initiateRefund\<close> and a plain save never change the
  status. So the only operation that changes a status is \<^verbatim>\<open>updateStatus\<close>, and the step from
  \<^verbatim>\<open>success\<close> to \<^verbatim>\<open>refunded\<close> is one of its calls, not an effect of \<^verbatim>\<open>initiateRefund\<close>.
\<close>

theorem status_follows_updateStatus:
  "\<not> thrown (updateStatus e s d p)
   \<and> pay_status (doc_of (updateStatus e s d p)) = s
   \<and> pay_status (doc_of (initiateRefund e amt reason p)) = pay_status p
   \<and> pay_status (doc_of (save_payment e p)) = pay_status p"
  by (simp add: updateStatus_status initiateRefund_status save_payment_status)
    (simp add: updateStatus_def save_payment_def Let_def)

theorem status_follows_updateStatus_witness:
  "pay_status (doc_of (updateStatus (env_at 5000) Refunded no_details paid_payment)) = Refunded
   \<and> pay_status (doc_of (initiateRefund (env_at 5000) 50000 ''changed mind'' paid_payment)) = Success
   \<and> pay_status (doc_of (save_payment (env_at 5000) paid_payment)) = Success"
  using status_follows_updateStatus
    [of "env_at 5000" Refunded no_details paid_payment 50000 "''changed mind''"]
  by (simp add: paid_payment_def)

subsection \<open>Failed attempts\<close>

text \<open>
  What \<^verbatim>\<open>updateStatus('failed', details)\<close> does to any payment: the method adds one to the
  counter, and the pre-save hook adds one more whenever the assignment marked the status
  as modified.
\<close>

lemma updateStatus_failed_attempts:
  "attempts (doc_of (updateStatus e Failed d p)) =
     attempts p + (if pay_statusModified p \<or> pay_isNew p \<or> pay_status p \<noteq> Failed then 2 else 1)"
  by (simp add: updateStatus_def Let_def set_status_def save_payment_def pre_save_payment_def
      generateReceipt_def countAttempt_def)

text \<open>
  C3. On a stored payment that is pending, with no attempt so far, one call of
  \<^verbatim>\<open>updateStatus('failed', {})\<close> sets the status and the default failure reason, and
  leaves the attempts counter at 2, not at 1.
\<close>

theorem updateStatus_failed_counts_twice:
  "attempts pending_payment = 0
   \<and> pay_status (doc_of (updateStatus (env_at 5000) Failed no_details pending_payment)) = Failed
   \<and> failureReason (doc_of (updateStatus (env_at 5000) Failed no_details pending_payment)) =
       Some ''Payment failed''
   \<and> attempts (doc_of (updateStatus (env_at 5000) Failed no_details pending_payment)) = 2"
  by (simp add: updateStatus_def Let_def set_status_def save_payment_def pre_save_payment_def
      generateReceipt_def countAttempt_def pending_payment_def no_details_def)

subsection \<open>Receipt numbers\<close>

lemma digit_upto_10: "\<forall>d \<in> set [0..<10]. digit d \<in> set ''0123456789''"
  by code_simp

lemma digit_is_decimal: "d < 10 \<Longrightarrow> digit d \<in> set ''0123456789''"
  using digit_upto_10 by simp

lemma toString_decimal: "set (toString n) \<subseteq> set ''0123456789''"
proof (induction n rule: toString.induct)
  case (1 n)
  show ?case
  proof (cases "n < 10")
    case True
    then show ?thesis using digit_is_decimal [of n] by (subst toString.simps) simp
  next
    case False
    have "digit (n mod 10) \<in> set ''0123456789''" by (rule digit_is_decimal) simp
    with False "1.IH" show ?thesis by (subst toString.simps) simp
  qed
qed

lemma toString_length: "0 < k \<Longrightarrow> n < 10 ^ k \<Longrightarrow> length (toString n) \<le> k"
proof (induction n arbitrary: k rule: toString.induct)
  case (1 n)
  show ?case
  proof (cases "n < 10")
    case True
    with "1.prems" show ?thesis by (subst toString.simps) simp
  next
    case False
    from "1.prems" obtain j where k: "k = Suc j"
      by (cases k) auto
    have j: "0 < j"
    proof (rule ccontr)
      assume "\<not> 0 < j"
      with k "1.prems" False show False by simp
    qed
    from "1.prems" k have "n div 10 < 10 ^ j"
      by (simp add: less_mult_imp_div_less mult.commute)
    with "1.IH" [OF False j] have "length (toString (n div 10)) \<le> j" by simp
    with False k show ?thesis by (subst toString.simps) simp
  qed
qed

lemma padStart_length: "length s \<le> k \<Longrightarrow> length (padStart k s) = k"
  by (simp add: padStart_def)

lemma padStart_decimal:
  "set s \<subseteq> set ''0123456789'' \<Longrightarrow> set (padStart k s) \<subseteq> set ''0123456789''"
  by (auto simp: padStart_def)

lemma suffix_four_digits:
  assumes "rand e < 10000"
  shows "length (padStart 4 (toString (rand e))) = 4"
    and "set (padStart 4 (toString (rand e))) \<subseteq> set ''0123456789''"
proof -
  from assms have "rand e < 10 ^ 4" by simp
  then have "length (toString (rand e)) \<le> 4" by (intro toString_length) simp_all
  then show "length (padStart 4 (toString (rand e))) = 4" by (rule padStart_length)
  show "set (padStart 4 (toString (rand e))) \<subseteq> set ''0123456789''"
    by (rule padStart_decimal) (rule toString_decimal)
qed

lemma month_two_digits:
  assumes "getMonth (now e) < 12"
  shows "length (padStart 2 (toString (getMonth (now e) + 1))) = 2"
proof -
  from assms have "getMonth (now e) + 1 < 10 ^ 2" by simp
  then have "length (toString (getMonth (now e) + 1)) \<le> 2" by (intro toString_length) simp_all
  then show ?thesis by (rule padStart_length)
qed

lemma save_payment_generates:
  "pay_status p = Success \<Longrightarrow> \<not> truthy (receiptNumber p) \<Longrightarrow>
     receiptNumber (doc_of (save_payment e p)) = Some (receipt e)"
  by (simp add: save_payment_def pre_save_payment_def generateReceipt_def countAttempt_def)

lemma save_payment_not_yet:
  "pay_status p \<noteq> Success \<Longrightarrow> receiptNumber (doc_of (save_payment e p)) = receiptNumber p"
  by (simp add: save_payment_def pre_save_payment_def generateReceipt_def countAttempt_def)

lemma save_payment_keeps_receipt:
  "truthy (receiptNumber p) \<Longrightarrow> receiptNumber (doc_of (save_payment e p)) = receiptNumber p"
  by (simp add: save_payment_def pre_save_payment_def generateReceipt_def countAttempt_def)

lemma apply_payment_op_keeps_receipt:
  assumes "truthy (receiptNumber p)"
  shows "receiptNumber (doc_of (apply_payment_op e x p)) = receiptNumber p"
proof (cases x)
  case (UpdateStatus s d)
  let ?q = "if s = Success
            then (set_status s p)\<lparr>paidAt := Some (getTime (now e)),
                   gatewayDetails := storeGatewayIds d (gatewayDetails (set_status s p))\<rparr>
            else if s = Failed
            then (set_status s p)\<lparr>failureReason := Some (or_else (d_reason d) ''Payment failed''),
                   attempts := attempts (set_status s p) + 1\<rparr>
            else set_status s p"
  have q: "receiptNumber ?q = receiptNumber p" by (simp add: set_status_def)
  have "apply_payment_op e x p = save_payment e ?q"
    using UpdateStatus by (simp add: updateStatus_def Let_def)
  with q assms show ?thesis by (simp add: save_payment_keeps_receipt)
next
  case (InitiateRefund a r)
  with assms show ?thesis by (simp add: initiateRefund_def save_payment_keeps_receipt)
next
  case SavePayment
  with assms show ?thesis by (simp add: save_payment_keeps_receipt)
qed

lemma run_payment_ops_keeps_receipt:
  "truthy (receiptNumber p) \<Longrightarrow> receiptNumber (run_payment_ops xs p) = receiptNumber p"
proof (induction xs arbitrary: p)
  case Nil
  show ?case by simp
next
  case (Cons ex xs)
  obtain e x where ex: "ex = (e, x)" by (cases ex)
  from Cons.prems have keep: "receiptNumber (doc_of (apply_payment_op e x p)) = receiptNumber p"
    by (rule apply_payment_op_keeps_receipt)
  with Cons.prems have "truthy (receiptNumber (doc_of (apply_payment_op e x p)))" by simp
  from Cons.IH [OF this] keep ex show ?case by simp
qed

text \<open>
  C8. While a payment has no receipt number, a save in which the status is not
  \<^verbatim>\<open>success\<close> leaves it without one, and the first save in which the status is
  \<^verbatim>\<open>success\<close> assigns \<^verbatim>\<open>REC\<close>, the year, the month on two digits and a suffix of four
  decimal digits. A payment that has a receipt number keeps it through every later save,
  and through every sequence of saves, status updates and refund requests.
\<close>

theorem receiptNumber_assigned_once:
  "(\<not> truthy (receiptNumber p) \<and> pay_status p \<noteq> Success \<longrightarrow>
      receiptNumber (doc_of (save_payment e p)) = receiptNumber p)
   \<and> (\<not> truthy (receiptNumber p) \<and> pay_status p = Success
        \<and> rand e < 10000 \<and> getMonth (now e) < 12 \<longrightarrow>
      receiptNumber (doc_of (save_payment e p)) =
        Some (''REC'' @ toString (getFullYear (now e))
                @ padStart 2 (toString (getMonth (now e) + 1))
                @ padStart 4 (toString (rand e)))
      \<and> length (padStart 2 (toString (getMonth (now e) + 1))) = 2
      \<and> length (padStart 4 (toString (rand e))) = 4
      \<and> set (padStart 4 (toString (rand e))) \<subseteq> set ''0123456789''
      \<and> truthy (receiptNumber (doc_of (save_payment e p))))
   \<and> (truthy (receiptNumber p) \<longrightarrow>
        receiptNumber (doc_of (save_payment e' p)) = receiptNumber p
        \<and> receiptNumber (run_payment_ops xs p) = receiptNumber p)"
proof (intro conjI impI)
  assume "\<not> truthy (receiptNumber p) \<and> pay_status p \<noteq> Success"
  then show "receiptNumber (doc_of (save_payment e p)) = receiptNumber p"
    by (simp add: save_payment_not_yet)
next
  assume a: "\<not> truthy (receiptNumber p) \<and> pay_status p = Success
    \<and> rand e < 10000 \<and> getMonth (now e) < 12"
  then have gen: "receiptNumber (doc_of (save_payment e p)) = Some (receipt e)"
    by (simp add: save_payment_generates)
  then show "receiptNumber (doc_of (save_payment e p)) =
        Some (''REC'' @ toString (getFullYear (now e))
                @ padStart 2 (toString (getMonth (now e) + 1))
                @ padStart 4 (toString (rand e)))"
    by (simp add: receipt_def)
  from gen show "truthy (receiptNumber (doc_of (save_payment e p)))"
    by (simp add: receipt_def)
  from a show "length (padStart 2 (toString (getMonth (now e) + 1))) = 2"
    by (intro month_two_digits) simp
  from a show "length (padStart 4 (toString (rand e))) = 4"
    by (intro suffix_four_digits(1)) simp
  from a show "set (padStart 4 (toString (rand e))) \<subseteq> set ''0123456789''"
    by (intro suffix_four_digits(2)) simp
next
  assume "truthy (receiptNumber p)"
  then show "receiptNumber (doc_of (save_payment e' p)) = receiptNumber p"
    by (rule save_payment_keeps_receipt)
next
  assume "truthy (receiptNumber p)"
  then show "receiptNumber (run_payment_ops xs p) = receiptNumber p"
    by (rule run_payment_ops_keeps_receipt)
qed

theorem receiptNumber_assigned_once_witness:
  "\<not> truthy (receiptNumber pending_payment) \<and> pay_status pending_payment \<noteq> Success
   \<and> receiptNumber (doc_of (save_payment (env_at 5000) pending_payment)) = None
   \<and> pay_status (pending_payment\<lparr>pay_status := Success\<rparr>) = Success
   \<and> rand (env_at 5000) < 10000 \<and> getMonth (now (env_at 5000)) < 12
   \<and> receiptNumber (doc_of (save_payment (env_at 5000) (pending_payment\<lparr>pay_status := Success\<rparr>)))
       = Some ''REC2024030042''
   \<and> truthy (receiptNumber paid_payment)
   \<and> receiptNumber (doc_of (save_payment (env_at 9000) paid_payment)) = Some ''REC2024030042''
   \<and> receiptNumber
        (run_payment_ops
           [(env_at 6000, InitiateRefund 50000 ''changed mind''),
            (env_at 7000, UpdateStatus Refunded no_details),
            (env_at 8000, UpdateStatus Success no_details),
            (env_at 9000, SavePayment)] paid_payment) = Some ''REC2024030042''"
proof -
  have digits: "toString 2024 = ''2024''" "padStart 2 (toString 3) = ''03''"
    "padStart 4 (toString 42) = ''0042''"
    by code_simp+
  show ?thesis
    using receiptNumber_assigned_once [of pending_payment "env_at 5000"]
      receiptNumber_assigned_once [of "pending_payment\<lparr>pay_status := Success\<rparr>" "env_at 5000"]
      receiptNumber_assigned_once [of paid_payment _ "env_at 9000"
        "[(env_at 6000, InitiateRefund 50000 ''changed mind''),
          (env_at 7000, UpdateStatus Refunded no_details),
          (env_at 8000, UpdateStatus Success no_details),
          (env_at 9000, SavePayment)]"]
    by (simp add: pending_payment_def paid_payment_def env_at_def digits)
qed

section \<open>Ticket lifecycle\<close>

subsection \<open>What each block of the ticket hook leaves alone\<close>

lemma generateTicketNumber_frame [simp]:
  "sla (generateTicketNumber e t) = sla t"
  "status (generateTicketNumber e t) = status t"
  "comments (generateTicketNumber e t) = comments t"
  "resolution (generateTicketNumber e t) = resolution t"
  "firstResponseAt (generateTicketNumber e t) = firstResponseAt t"
  "reopenedCount (generateTicketNumber e t) = reopenedCount t"
  "lastReopenedAt (generateTicketNumber e t) = lastReopenedAt t"
  "createdAt (generateTicketNumber e t) = createdAt t"
  "priority (generateTicketNumber e t) = priority t"
  "isNew (generateTicketNumber e t) = isNew t"
  by (simp_all add: generateTicketNumber_def)

lemma setSlaDeadlines_frame [simp]:
  "breached (sla (setSlaDeadlines e t)) = breached (sla t)"
  "responseTime (sla (setSlaDeadlines e t)) = responseTime (sla t)"
  "resolutionTime (sla (setSlaDeadlines e t)) = resolutionTime (sla t)"
  "status (setSlaDeadlines e t) = status t"
  "comments (setSlaDeadlines e t) = comments t"
  "resolution (setSlaDeadlines e t) = resolution t"
  "firstResponseAt (setSlaDeadlines e t) = firstResponseAt t"
  "reopenedCount (setSlaDeadlines e t) = reopenedCount t"
  "lastReopenedAt (setSlaDeadlines e t) = lastReopenedAt t"
  "createdAt (setSlaDeadlines e t) = createdAt t"
  "priority (setSlaDeadlines e t) = priority t"
  "isNew (setSlaDeadlines e t) = isNew t"
  by (simp_all add: setSlaDeadlines_def)

lemma setSlaDeadlines_stored [simp]: "\<not> isNew t \<Longrightarrow> setSlaDeadlines e t = t"
  by (simp add: setSlaDeadlines_def)

lemma setSlaDeadlines_new:
  "isNew t \<Longrightarrow>
     responseDeadline (sla (setSlaDeadlines e t)) =
       Some (getTime (now e) + responseHours (priority t) * 60 * 60 * 1000)
     \<and> resolutionDeadline (sla (setSlaDeadlines e t)) =
       Some (getTime (now e) + resolutionHours (priority t) * 60 * 60 * 1000)"
  by (simp add: setSlaDeadlines_def)

lemma trackFirstResponse_frame [simp]:
  "breached (sla (trackFirstResponse t)) = breached (sla t)"
  "responseDeadline (sla (trackFirstResponse t)) = responseDeadline (sla t)"
  "resolutionDeadline (sla (trackFirstResponse t)) = resolutionDeadline (sla t)"
  "resolutionTime (sla (trackFirstResponse t)) = resolutionTime (sla t)"
  "status (trackFirstResponse t) = status t"
  "comments (trackFirstResponse t) = comments t"
  "resolution (trackFirstResponse t) = resolution t"
  "reopenedCount (trackFirstResponse t) = reopenedCount t"
  "lastReopenedAt (trackFirstResponse t) = lastReopenedAt t"
  "createdAt (trackFirstResponse t) = createdAt t"
  "priority (trackFirstResponse t) = priority t"
  "isNew (trackFirstResponse t) = isNew t"
  by (simp_all add: trackFirstResponse_def split: list.splits)

lemma trackResolution_frame [simp]:
  "breached (sla (trackResolution e t)) = breached (sla t)"
  "responseDeadline (sla (trackResolution e t)) = responseDeadline (sla t)"
  "resolutionDeadline (sla (trackResolution e t)) = resolutionDeadline (sla t)"
  "responseTime (sla (trackResolution e t)) = responseTime (sla t)"
  "status (trackResolution e t) = status t"
  "comments (trackResolution e t) = comments t"
  "firstResponseAt (trackResolution e t) = firstResponseAt t"
  "reopenedCount (trackResolution e t) = reopenedCount t"
  "lastReopenedAt (trackResolution e t) = lastReopenedAt t"
  "createdAt (trackResolution e t) = createdAt t"
  "priority (trackResolution e t) = priority t"
  "isNew (trackResolution e t) = isNew t"
  by (simp_all add: trackResolution_def)

lemma trackResolution_skipped [simp]:
  "status t \<noteq> Resolved \<Longrightarrow> trackResolution e t = t"
  "resolvedAt (resolution t) = Some r \<Longrightarrow> trackResolution e t = t"
  by (simp_all add: trackResolution_def)

lemma trackClosure_frame [simp]:
  "sla (trackClosure e t) = sla t"
  "status (trackClosure e t) = status t"
  "comments (trackClosure e t) = comments t"
  "resolution (trackClosure e t) = resolution t"
  "firstResponseAt (trackClosure e t) = firstResponseAt t"
  "reopenedCount (trackClosure e t) = reopenedCount t"
  "lastReopenedAt (trackClosure e t) = lastReopenedAt t"
  "createdAt (trackClosure e t) = createdAt t"
  "priority (trackClosure e t) = priority t"
  "isNew (trackClosure e t) = isNew t"
  by (simp_all add: trackClosure_def)

lemma responseBreach_frame [simp]:
  "responseDeadline (sla (responseBreach e t)) = responseDeadline (sla t)"
  "resolutionDeadline (sla (responseBreach e t)) = resolutionDeadline (sla t)"
  "responseTime (sla (responseBreach e t)) = responseTime (sla t)"
  "resolutionTime (sla (responseBreach e t)) = resolutionTime (sla t)"
  "status (responseBreach e t) = status t"
  "comments (responseBreach e t) = comments t"
  "resolution (responseBreach e t) = resolution t"
  "firstResponseAt (responseBreach e t) = firstResponseAt t"
  "reopenedCount (responseBreach e t) = reopenedCount t"
  "lastReopenedAt (responseBreach e t) = lastReopenedAt t"
  "createdAt (responseBreach e t) = createdAt t"
  "priority (responseBreach e t) = priority t"
  "isNew (responseBreach e t) = isNew t"
  by (simp_all add: responseBreach_def split: option.splits)

lemma resolutionBreach_frame [simp]:
  "responseDeadline (sla (resolutionBreach e t)) = responseDeadline (sla t)"
  "resolutionDeadline (sla (resolutionBreach e t)) = resolutionDeadline (sla t)"
  "responseTime (sla (resolutionBreach e t)) = responseTime (sla t)"
  "resolutionTime (sla (resolutionBreach e t)) = resolutionTime (sla t)"
  "status (resolutionBreach e t) = status t"
  "comments (resolutionBreach e t) = comments t"
  "resolution (resolutionBreach e t) = resolution t"
  "firstResponseAt (resolutionBreach e t) = firstResponseAt t"
  "reopenedCount (resolutionBreach e t) = reopenedCount t"
  "lastReopenedAt (resolutionBreach e t) = lastReopenedAt t"
  "createdAt (resolutionBreach e t) = createdAt t"
  "priority (resolutionBreach e t) = priority t"
  "isNew (resolutionBreach e t) = isNew t"
  by (simp_all add: resolutionBreach_def split: option.splits)

lemma breach_checks_keep_flag [simp]:
  "breached (sla t) \<Longrightarrow> breached (sla (responseBreach e t))"
  "breached (sla t) \<Longrightarrow> breached (sla (resolutionBreach e t))"
  by (simp_all add: responseBreach_def resolutionBreach_def split: option.splits)

lemma stampCreatedAt_frame [simp]:
  "sla (stampCreatedAt e t) = sla t"
  "status (stampCreatedAt e t) = status t"
  "comments (stampCreatedAt e t) = comments t"
  "resolution (stampCreatedAt e t) = resolution t"
  "firstResponseAt (stampCreatedAt e t) = firstResponseAt t"
  "reopenedCount (stampCreatedAt e t) = reopenedCount t"
  "lastReopenedAt (stampCreatedAt e t) = lastReopenedAt t"
  "priority (stampCreatedAt e t) = priority t"
  "isNew (stampCreatedAt e t) = isNew t"
  by (simp_all add: stampCreatedAt_def)

lemma stampCreatedAt_stored [simp]: "\<not> isNew t \<Longrightarrow> stampCreatedAt e t = t"
  by (simp add: stampCreatedAt_def)

subsection \<open>What a save of a ticket leaves alone\<close>

lemma save_ticket_Saved: "\<not> thrown (save_ticket e t)"
  by (simp add: save_ticket_def)

lemma save_ticket_frame [simp]:
  "status (doc_of (save_ticket e t)) = status t"
  "comments (doc_of (save_ticket e t)) = comments t"
  "reopenedCount (doc_of (save_ticket e t)) = reopenedCount t"
  "lastReopenedAt (doc_of (save_ticket e t)) = lastReopenedAt t"
  "priority (doc_of (save_ticket e t)) = priority t"
  "isNew (doc_of (save_ticket e t)) = False"
  by (simp_all add: save_ticket_def pre_save_ticket_def)

lemma save_ticket_breached:
  "breached (sla t) \<Longrightarrow> breached (sla (doc_of (save_ticket e t)))"
  by (simp add: save_ticket_def pre_save_ticket_def)

lemma save_ticket_stored:
  "\<not> isNew t \<Longrightarrow>
     responseDeadline (sla (doc_of (save_ticket e t))) = responseDeadline (sla t)
     \<and> resolutionDeadline (sla (doc_of (save_ticket e t))) = resolutionDeadline (sla t)
     \<and> createdAt (doc_of (save_ticket e t)) = createdAt t"
  by (simp add: save_ticket_def pre_save_ticket_def)

lemma save_ticket_new:
  "isNew t \<Longrightarrow> createdAt t = None \<Longrightarrow>
     createdAt (doc_of (save_ticket e t)) = Some (getTime (now e))
     \<and> responseDeadline (sla (doc_of (save_ticket e t))) =
         Some (getTime (now e) + responseHours (priority t) * 60 * 60 * 1000)
     \<and> resolutionDeadline (sla (doc_of (save_ticket e t))) =
         Some (getTime (now e) + resolutionHours (priority t) * 60 * 60 * 1000)"
  by (simp add: save_ticket_def pre_save_ticket_def setSlaDeadlines_new)
    (simp add: stampCreatedAt_def)

lemma save_ticket_resolution:
  "status t \<noteq> Resolved \<or> resolvedAt (resolution t) \<noteq> None \<Longrightarrow>
     resolution (doc_of (save_ticket e t)) = resolution t
     \<and> resolutionTime (sla (doc_of (save_ticket e t))) = resolutionTime (sla t)"
  by (auto simp add: save_ticket_def pre_save_ticket_def)

subsection \<open>Operations on stored tickets\<close>

lemma apply_ticket_op_breached:
  assumes "breached (sla t)"
  shows "breached (sla (doc_of (apply_ticket_op e x t)))"
proof (cases x)
  case (AddComment body a i atts)
  with assms show ?thesis by (simp add: addComment_def save_ticket_breached)
next
  case (AssignToAgent a)
  with assms show ?thesis by (simp add: assignToAgent_def save_ticket_breached)
next
  case (Resolve body a)
  with assms show ?thesis by (simp add: resolve_def save_ticket_breached)
next
  case (Reopen r)
  with assms show ?thesis by (simp add: reopen_def Let_def save_ticket_breached)
next
  case (AddRating sc fb)
  with assms show ?thesis by (simp add: addRating_def save_ticket_breached)
next
  case SaveTicket
  with assms show ?thesis by (simp add: save_ticket_breached)
qed

lemma run_ticket_ops_breached:
  "breached (sla t) \<Longrightarrow> breached (sla (run_ticket_ops xs t))"
proof (induction xs arbitrary: t)
  case Nil
  then show ?case by simp
next
  case (Cons ex xs)
  obtain e x where ex: "ex = (e, x)" by (cases ex)
  from Cons.prems have "breached (sla (doc_of (apply_ticket_op e x t)))"
    by (rule apply_ticket_op_breached)
  from Cons.IH [OF this] ex show ?case by simp
qed

lemma save_ticket_stored_deadlines:
  "\<not> isNew t \<Longrightarrow> deadlines (doc_of (save_ticket e t)) = deadlines t"
  by (simp add: deadlines_def save_ticket_stored)

lemma apply_ticket_op_stored:
  assumes "\<not> isNew t"
  shows "\<not> isNew (doc_of (apply_ticket_op e x t))
    \<and> deadlines (doc_of (apply_ticket_op e x t)) = deadlines t"
proof (cases x)
  case (AddComment body a i atts)
  with assms show ?thesis
    by (simp add: addComment_def save_ticket_stored_deadlines) (simp add: deadlines_def)
next
  case (AssignToAgent a)
  with assms show ?thesis
    by (simp add: assignToAgent_def save_ticket_stored_deadlines) (simp add: deadlines_def)
next
  case (Resolve body a)
  with assms show ?thesis
    by (simp add: resolve_def save_ticket_stored_deadlines) (simp add: deadlines_def)
next
  case (Reopen r)
  with assms show ?thesis
    by (simp add: reopen_def Let_def save_ticket_stored_deadlines) (simp add: deadlines_def)
next
  case (AddRating sc fb)
  with assms show ?thesis
    by (simp add: addRating_def save_ticket_stored_deadlines) (simp add: deadlines_def)
next
  case SaveTicket
  with assms show ?thesis by (simp add: save_ticket_stored_deadlines)
qed

lemma run_ticket_ops_stored:
  "\<not> isNew t \<Longrightarrow> deadlines (run_ticket_ops xs t) = deadlines t"
proof (induction xs arbitrary: t)
  case Nil
  then show ?case by simp
next
  case (Cons ex xs)
  obtain e x where ex: "ex = (e, x)" by (cases ex)
  from Cons.prems have step: "\<not> isNew (doc_of (apply_ticket_op e x t))"
    "deadlines (doc_of (apply_ticket_op e x t)) = deadlines t"
    using apply_ticket_op_stored by simp_all
  from Cons.IH [OF step(1)] step(2) ex show ?case by simp
qed

subsection \<open>Resolution\<close>

lemma resolve_result:
  "\<not> thrown (resolve e body who t)
   \<and> status (doc_of (resolve e body who t)) = Resolved
   \<and> resolution (doc_of (resolve e body who t)) =
       \<lparr>r_text = Some body, resolvedBy = Some who, resolvedAt = Some (getTime (now e))\<rparr>
   \<and> resolutionTime (sla (doc_of (resolve e body who t))) = resolutionTime (sla t)"
  by (simp add: resolve_def save_ticket_Saved save_ticket_resolution)

text \<open>
  C1, as the specification states it, fails: \<^verbatim>\<open>resolve\<close> has no check of the current
  status. On a ticket that is already resolved it succeeds and replaces the resolution
  record.
\<close>

theorem resolve_again_counterexample:
  "status resolved_ticket = Resolved
   \<and> r_text (resolution resolved_ticket) = Some ''first answer''
   \<and> \<not> thrown (resolve (env_at 7200000) ''second answer'' (ObjectId 8) resolved_ticket)
   \<and> resolution (doc_of (resolve (env_at 7200000) ''second answer'' (ObjectId 8) resolved_ticket)) =
       \<lparr>r_text = Some ''second answer'', resolvedBy = Some (ObjectId 8),
        resolvedAt = Some 7200000\<rparr>"
  by (simp add: resolve_result) (simp add: resolved_ticket_def env_at_def)

text \<open>
  C1, amended. \<^verbatim>\<open>resolve(text, resolverId)\<close> never fails: on every ticket, one that is
  already resolved included, it sets the status to \<^verbatim>\<open>resolved\<close> and replaces the resolution
  record by the new text, resolver and timestamp.
\<close>

theorem resolve_never_rejects:
  "\<not> thrown (resolve e body who t)
   \<and> status (doc_of (resolve e body who t)) = Resolved
   \<and> resolution (doc_of (resolve e body who t)) =
       \<lparr>r_text = Some body, resolvedBy = Some who, resolvedAt = Some (getTime (now e))\<rparr>"
proof -
  let ?t = "t\<lparr>status := Resolved,
              resolution := \<lparr>r_text = Some body, resolvedBy = Some who,
                             resolvedAt = Some (getTime (now e))\<rparr>\<rparr>"
  have call: "resolve e body who t = save_ticket e ?t" by (simp add: resolve_def)
  have "resolvedAt (resolution ?t) \<noteq> None" by simp
  then have "resolution (doc_of (save_ticket e ?t)) = resolution ?t"
    by (simp add: save_ticket_resolution)
  with call show ?thesis by (simp add: save_ticket_Saved)
qed

theorem resolve_never_rejects_witness:
  "\<not> thrown (resolve (env_at 7200000) ''second answer'' (ObjectId 8) resolved_ticket)
   \<and> status (doc_of (resolve (env_at 7200000) ''second answer'' (ObjectId 8) resolved_ticket)) =
       Resolved
   \<and> r_text (resolution
        (doc_of (resolve (env_at 7200000) ''second answer'' (ObjectId 8) resolved_ticket))) =
       Some ''second answer''"
  using resolve_never_rejects [of "env_at 7200000" "''second answer''" "ObjectId 8" resolved_ticket]
  by simp

text \<open>
  C4. \<^verbatim>\<open>resolve\<close> fills \<^verbatim>\<open>resolvedAt\<close> itself, so the block of the hook that computes
  \<^verbatim>\<open>sla.resolutionTime\<close>, guarded by \<^verbatim>\<open>!this.resolution.resolvedAt\<close>, is skipped. An open
  ticket created at time 0 and resolved two hours later has status and resolution record
  set, and no resolution time, where the elapsed time is 2 hours.
\<close>

theorem resolve_leaves_resolutionTime_unset:
  "status open_ticket = Open \<and> createdAt open_ticket = Some 0
   \<and> \<not> thrown (resolve (env_at 7200000) ''fixed'' (ObjectId 8) open_ticket)
   \<and> status (doc_of (resolve (env_at 7200000) ''fixed'' (ObjectId 8) open_ticket)) = Resolved
   \<and> resolvedAt (resolution (doc_of (resolve (env_at 7200000) ''fixed'' (ObjectId 8) open_ticket)))
       = Some 7200000
   \<and> elapsedHours 7200000 (createdAt open_ticket) = Some 2
   \<and> resolutionTime (sla (doc_of (resolve (env_at 7200000) ''fixed'' (ObjectId 8) open_ticket)))
       = None"
proof -
  have before: "status open_ticket = Open" "createdAt open_ticket = Some 0"
    "resolutionTime (sla open_ticket) = None"
    by (simp_all add: open_ticket_def)
  have expected: "elapsedHours 7200000 (createdAt open_ticket) = Some 2"
    by (simp add: before elapsedHours_def)
  have clock: "getTime (now (env_at 7200000)) = 7200000" by (simp add: env_at_def)
  from resolve_result [of "env_at 7200000" "''fixed''" "ObjectId 8" open_ticket] expected
  show ?thesis by (simp add: before clock)
qed

subsection \<open>SLA deadlines\<close>

text \<open>
  C5. The first save of a new ticket stamps \<^verbatim>\<open>createdAt\<close> and sets the response and
  resolution deadlines to that time plus 2 and 24 hours for \<^verbatim>\<open>urgent\<close>, 4 and 48 for
  \<^verbatim>\<open>high\<close>, 24 and 72 for \<^verbatim>\<open>medium\<close>, 48 and 120 for \<^verbatim>\<open>low\<close>. No sequence of lifecycle
  operations on the stored ticket changes the deadlines or \<^verbatim>\<open>createdAt\<close> again.
\<close>

theorem sla_deadlines_set_once:
  "(isNew t \<and> createdAt t = None \<longrightarrow>
      createdAt (doc_of (save_ticket e t)) = Some (getTime (now e))
      \<and> responseDeadline (sla (doc_of (save_ticket e t))) =
          Some (getTime (now e)
                + (case priority t of Urgent \<Rightarrow> 2 | High \<Rightarrow> 4 | Medium \<Rightarrow> 24 | Low \<Rightarrow> 48)
                  * 3600000)
      \<and> resolutionDeadline (sla (doc_of (save_ticket e t))) =
          Some (getTime (now e)
                + (case priority t of Urgent \<Rightarrow> 24 | High \<Rightarrow> 48 | Medium \<Rightarrow> 72 | Low \<Rightarrow> 120)
                  * 3600000)
      \<and> deadlines (run_ticket_ops xs (doc_of (save_ticket e t))) =
          deadlines (doc_of (save_ticket e t)))
   \<and> (\<not> isNew t \<longrightarrow> deadlines (run_ticket_ops xs t) = deadlines t)"
proof (intro conjI impI)
  assume a: "isNew t \<and> createdAt t = None"
  then show "createdAt (doc_of (save_ticket e t)) = Some (getTime (now e))"
    by (simp add: save_ticket_new)
  from a show "responseDeadline (sla (doc_of (save_ticket e t))) =
      Some (getTime (now e)
            + (case priority t of Urgent \<Rightarrow> 2 | High \<Rightarrow> 4 | Medium \<Rightarrow> 24 | Low \<Rightarrow> 48)
              * 3600000)"
    by (simp add: save_ticket_new responseHours_def)
  from a show "resolutionDeadline (sla (doc_of (save_ticket e t))) =
      Some (getTime (now e)
            + (case priority t of Urgent \<Rightarrow> 24 | High \<Rightarrow> 48 | Medium \<Rightarrow> 72 | Low \<Rightarrow> 120)
              * 3600000)"
    by (simp add: save_ticket_new resolutionHours_def)
  show "deadlines (run_ticket_ops xs (doc_of (save_ticket e t))) =
      deadlines (doc_of (save_ticket e t))"
    by (rule run_ticket_ops_stored) simp
next
  assume "\<not> isNew t"
  then show "deadlines (run_ticket_ops xs t) = deadlines t"
    by (rule run_ticket_ops_stored)
qed

theorem sla_deadlines_set_once_witness:
  "isNew (newSupportRequest (ObjectId 1) (Some Urgent))
   \<and> createdAt (newSupportRequest (ObjectId 1) (Some Urgent)) = None
   \<and> createdAt (doc_of (createRequest (env_at 1000) (ObjectId 1) (Some Urgent))) = Some 1000
   \<and> responseDeadline (sla (doc_of (createRequest (env_at 1000) (ObjectId 1) (Some Urgent)))) =
       Some (1000 + 2 * 3600000)
   \<and> resolutionDeadline (sla (doc_of (createRequest (env_at 1000) (ObjectId 1) (Some Urgent)))) =
       Some (1000 + 24 * 3600000)
   \<and> \<not> isNew open_ticket
   \<and> deadlines (run_ticket_ops
        [(env_at 3600000, AddComment ''on it'' (ObjectId 2) False []),
         (env_at 5400000, Resolve ''fixed'' (ObjectId 2)),
         (env_at 9000000, Reopen (Some ''still broken''))] open_ticket) =
       (Some 14400000, Some 172800000, Some 0)"
  using sla_deadlines_set_once [of "newSupportRequest (ObjectId 1) (Some Urgent)" "env_at 1000" "[]"]
    sla_deadlines_set_once [of open_ticket _
      "[(env_at 3600000, AddComment ''on it'' (ObjectId 2) False []),
        (env_at 5400000, Resolve ''fixed'' (ObjectId 2)),
        (env_at 9000000, Reopen (Some ''still broken''))]"]
  by (simp add: createRequest_def)
    (simp add: newSupportRequest_def open_ticket_def env_at_def deadlines_def)

subsection \<open>Reopening\<close>

lemma reopen_result:
  "\<not> thrown (reopen e reason t)"
  by (simp add: reopen_def save_ticket_Saved)

lemma reopen_applies:
  assumes "status t = Resolved \<or> status t = Closed"
  shows "status (doc_of (reopen e reason t)) = Open"
    and "resolution (doc_of (reopen e reason t)) = no_resolution"
    and "reopenedCount (doc_of (reopen e reason t)) = reopenedCount t + 1"
    and "lastReopenedAt (doc_of (reopen e reason t)) = Some (getTime (now e))"
    and "reason = Some r \<Longrightarrow> r \<noteq> [] \<Longrightarrow>
         comments (doc_of (reopen e reason t)) =
           comments t @ [\<lparr>c_text = ''Ticket reopened: '' @ r, c_author = customerId t,
                          c_isInternal = False, c_attachments = [],
                          c_createdAt = getTime (now e)\<rparr>]"
    and "\<not> truthy reason \<Longrightarrow> comments (doc_of (reopen e reason t)) = comments t"
  using assms by (auto simp add: reopen_def Let_def save_ticket_resolution)

lemma reopen_skips:
  assumes "status t = Open \<or> status t = InReview"
  shows "status (doc_of (reopen e reason t)) = status t"
    and "reopenedCount (doc_of (reopen e reason t)) = reopenedCount t"
    and "resolution (doc_of (reopen e reason t)) = resolution t"
    and "comments (doc_of (reopen e reason t)) = comments t"
  using assms by (auto simp add: reopen_def save_ticket_resolution)

text \<open>
  C7, as the specification states it, fails: the comment is pushed under \<^verbatim>\<open>if (reason)\<close>,
  and reopening a resolved ticket with the empty reason appends nothing.
\<close>

theorem reopen_without_reason_counterexample:
  "status resolved_ticket = Resolved
   \<and> comments (doc_of (reopen (env_at 7200000) (Some []) resolved_ticket)) =
       comments resolved_ticket"
proof -
  have s: "status resolved_ticket = Resolved" by (simp add: resolved_ticket_def)
  then have "status resolved_ticket = Resolved \<or> status resolved_ticket = Closed" by simp
  from reopen_applies(6) [OF this, of "Some []"] s show ?thesis by simp
qed

text \<open>
  C7, amended. From \<^verbatim>\<open>resolved\<close> or \<^verbatim>\<open>closed\<close>, \<^verbatim>\<open>reopen(reason)\<close> sets the status to
  \<^verbatim>\<open>open\<close>, clears the resolution record, adds exactly 1 to the reopen counter and records
  the timestamp; when the reason is a non-empty string it appends the comment
  \<^verbatim>\<open>Ticket reopened: <reason>\<close> authored as the owning customer, and when the reason is
  empty or missing it appends no comment. From \<^verbatim>\<open>open\<close> or \<^verbatim>\<open>in_review\<close> it leaves status,
  reopen counter, resolution record and comments unchanged.
\<close>

theorem reopen_spec:
  "(status t = Resolved \<or> status t = Closed \<longrightarrow>
      \<not> thrown (reopen e reason t)
      \<and> status (doc_of (reopen e reason t)) = Open
      \<and> resolution (doc_of (reopen e reason t)) = no_resolution
      \<and> reopenedCount (doc_of (reopen e reason t)) = reopenedCount t + 1
      \<and> lastReopenedAt (doc_of (reopen e reason t)) = Some (getTime (now e))
      \<and> (\<forall>r. reason = Some r \<and> r \<noteq> [] \<longrightarrow>
            comments (doc_of (reopen e reason t)) =
              comments t @ [\<lparr>c_text = ''Ticket reopened: '' @ r, c_author = customerId t,
                             c_isInternal = False, c_attachments = [],
                             c_createdAt = getTime (now e)\<rparr>])
      \<and> (\<not> truthy reason \<longrightarrow> comments (doc_of (reopen e reason t)) = comments t))
   \<and> (status t = Open \<or> status t = InReview \<longrightarrow>
        status (doc_of (reopen e reason t)) = status t
        \<and> reopenedCount (doc_of (reopen e reason t)) = reopenedCount t
        \<and> resolution (doc_of (reopen e reason t)) = resolution t
        \<and> comments (doc_of (reopen e reason t)) = comments t)"
proof (intro conjI impI allI)
  show "\<not> thrown (reopen e reason t)" by (rule reopen_result)
next
  fix r
  assume "status t = Resolved \<or> status t = Closed" and "reason = Some r \<and> r \<noteq> []"
  then show "comments (doc_of (reopen e reason t)) =
      comments t @ [\<lparr>c_text = ''Ticket reopened: '' @ r, c_author = customerId t,
                     c_isInternal = False, c_attachments = [],
                     c_createdAt = getTime (now e)\<rparr>]"
    by (simp add: reopen_applies(5))
qed (simp_all add: reopen_applies reopen_skips)

theorem reopen_spec_witness:
  "status resolved_ticket = Resolved
   \<and> status (doc_of (reopen (env_at 7200000) (Some ''still broken'') resolved_ticket)) = Open
   \<and> resolution (doc_of (reopen (env_at 7200000) (Some ''still broken'') resolved_ticket)) =
       no_resolution
   \<and> reopenedCount (doc_of (reopen (env_at 7200000) (Some ''still broken'') resolved_ticket)) = 1
   \<and> lastReopenedAt (doc_of (reopen (env_at 7200000) (Some ''still broken'') resolved_ticket)) =
       Some 7200000
   \<and> comments (doc_of (reopen (env_at 7200000) (Some ''still broken'') resolved_ticket)) =
       [\<lparr>c_text = ''Ticket reopened: still broken'', c_author = ObjectId 1,
         c_isInternal = False, c_attachments = [], c_createdAt = 7200000\<rparr>]
   \<and> \<not> truthy None
   \<and> comments (doc_of (reopen (env_at 7200000) None resolved_ticket)) = []
   \<and> status open_ticket = Open
   \<and> status (doc_of (reopen (env_at 7200000) (Some ''still broken'') open_ticket)) = Open
   \<and> reopenedCount (doc_of (reopen (env_at 7200000) (Some ''still broken'') open_ticket)) = 0
   \<and> resolution (doc_of (reopen (env_at 7200000) (Some ''still broken'') open_ticket)) =
       no_resolution
   \<and> comments (doc_of (reopen (env_at 7200000) (Some ''still broken'') open_ticket)) = []"
  using reopen_spec [of resolved_ticket "env_at 7200000" "Some ''still broken''"]
    reopen_spec [of resolved_ticket "env_at 7200000" None]
    reopen_spec [of open_ticket "env_at 7200000" "Some ''still broken''"]
  by (simp add: resolved_ticket_def open_ticket_def env_at_def)

subsection \<open>First response\<close>

lemma adminComments_snoc:
  "adminComments (t\<lparr>comments := comments t @ [c]\<rparr>) =
     adminComments t @ (if \<not> c_isInternal c \<or> role_of (c_author c) = Some Admin then [c] else [])"
  by (simp add: adminComments_def)

lemma trackFirstResponse_hit:
  "comments t \<noteq> [] \<Longrightarrow> firstResponseAt t = None \<Longrightarrow> adminComments t = c # cs \<Longrightarrow>
     firstResponseAt (trackFirstResponse t) = Some (c_createdAt c)
     \<and> responseTime (sla (trackFirstResponse t)) = elapsedHours (c_createdAt c) (createdAt t)"
  by (simp add: trackFirstResponse_def)

lemma trackFirstResponse_miss: "adminComments t = [] \<Longrightarrow> trackFirstResponse t = t"
  by (simp add: trackFirstResponse_def)

lemma adminComments_hook [simp]:
  "adminComments (setSlaDeadlines e t) = adminComments t"
  "adminComments (generateTicketNumber e t) = adminComments t"
  "adminComments (stampCreatedAt e t) = adminComments t"
  by (simp_all add: adminComments_def)

text \<open>
  The first comment that the filter of the hook accepts: on a stored ticket without a
  response so far, it becomes the first response.
\<close>

lemma addComment_first_response:
  assumes "\<not> isNew t" and "firstResponseAt t = None" and "adminComments t = []"
    and "\<not> internal \<or> role_of who = Some Admin"
  shows "firstResponseAt (doc_of (addComment e body who internal atts t)) = Some (getTime (now e))"
    and "responseTime (sla (doc_of (addComment e body who internal atts t))) =
           elapsedHours (getTime (now e)) (createdAt t)"
proof -
  let ?c = "\<lparr>c_text = body, c_author = who, c_isInternal = internal,
             c_attachments = atts, c_createdAt = getTime (now e)\<rparr>"
  let ?t = "t\<lparr>comments := comments t @ [?c]\<rparr>"
  from assms have ac: "adminComments ?t = ?c # []" by (simp add: adminComments_snoc)
  from assms have pre: "comments ?t \<noteq> []" "firstResponseAt ?t = None" "\<not> isNew ?t"
    by simp_all
  from trackFirstResponse_hit [OF pre(1,2) ac]
  have hit: "firstResponseAt (trackFirstResponse ?t) = Some (getTime (now e))"
    "responseTime (sla (trackFirstResponse ?t)) = elapsedHours (getTime (now e)) (createdAt t)"
    by simp_all
  from pre(3) have "generateTicketNumber e ?t = ?t" by (simp add: generateTicketNumber_def)
  with pre(3) hit
  show "firstResponseAt (doc_of (addComment e body who internal atts t)) = Some (getTime (now e))"
    and "responseTime (sla (doc_of (addComment e body who internal atts t))) =
           elapsedHours (getTime (now e)) (createdAt t)"
    by (simp_all add: addComment_def save_ticket_def pre_save_ticket_def)
qed

text \<open>
  An internal comment whose author is a bare id (what \<^verbatim>\<open>addComment\<close> receives from its
  caller) is not accepted by the filter, whoever wrote it.
\<close>

lemma addComment_internal_by_id:
  assumes "firstResponseAt t = None" and "adminComments t = []"
  shows "firstResponseAt (doc_of (addComment e body (ObjectId i) True atts t)) = None"
    and "responseTime (sla (doc_of (addComment e body (ObjectId i) True atts t))) =
           responseTime (sla t)"
proof -
  let ?c = "\<lparr>c_text = body, c_author = ObjectId i, c_isInternal = True,
             c_attachments = atts, c_createdAt = getTime (now e)\<rparr>"
  let ?t = "t\<lparr>comments := comments t @ [?c]\<rparr>"
  from assms have "adminComments ?t = []" by (simp add: adminComments_snoc)
  then have "trackFirstResponse (setSlaDeadlines e (generateTicketNumber e (stampCreatedAt e ?t)))
      = setSlaDeadlines e (generateTicketNumber e (stampCreatedAt e ?t))"
    by (intro trackFirstResponse_miss) simp
  with assms
  show "firstResponseAt (doc_of (addComment e body (ObjectId i) True atts t)) = None"
    and "responseTime (sla (doc_of (addComment e body (ObjectId i) True atts t))) =
           responseTime (sla t)"
    by (simp_all add: addComment_def save_ticket_def pre_save_ticket_def)
qed

text \<open>
  C9. The first comment on a ticket without a response, written by an administrator as an
  internal comment and passed to \<^verbatim>\<open>addComment\<close> with the author's id, is stored, and
  \<^verbatim>\<open>firstResponseAt\<close> and \<^verbatim>\<open>sla.responseTime\<close> stay unset.
\<close>

theorem internal_admin_comment_is_no_response:
  "firstResponseAt open_ticket = None \<and> comments open_ticket = []
   \<and> \<not> thrown (addComment (env_at 3600000) ''looking into it'' (ObjectId 2) True [] open_ticket)
   \<and> comments (doc_of
        (addComment (env_at 3600000) ''looking into it'' (ObjectId 2) True [] open_ticket)) =
       [\<lparr>c_text = ''looking into it'', c_author = ObjectId 2, c_isInternal = True,
         c_attachments = [], c_createdAt = 3600000\<rparr>]
   \<and> firstResponseAt (doc_of
        (addComment (env_at 3600000) ''looking into it'' (ObjectId 2) True [] open_ticket)) = None
   \<and> responseTime (sla (doc_of
        (addComment (env_at 3600000) ''looking into it'' (ObjectId 2) True [] open_ticket))) = None"
proof -
  have "firstResponseAt open_ticket = None" "adminComments open_ticket = []"
    by (simp_all add: open_ticket_def adminComments_def)
  from addComment_internal_by_id [OF this]
  show ?thesis
    by (simp add: addComment_def save_ticket_Saved) (simp add: open_ticket_def env_at_def)
qed

subsection \<open>The breach flag\<close>

text \<open>
  C10. On a ticket whose \<^verbatim>\<open>sla.breached\<close> flag is set, the flag is still set after
  \<^verbatim>\<open>addComment\<close>, \<^verbatim>\<open>assignToAgent\<close>, \<^verbatim>\<open>resolve\<close>, \<^verbatim>\<open>reopen\<close>, \<^verbatim>\<open>addRating\<close> (accepted or
  rejected), a plain save, and any sequence of these.
\<close>

theorem breach_flag_monotone:
  "breached (sla t) \<longrightarrow>
     breached (sla (doc_of (addComment e body who internal atts t)))
     \<and> breached (sla (doc_of (assignToAgent e who t)))
     \<and> breached (sla (doc_of (resolve e body who t)))
     \<and> breached (sla (doc_of (reopen e reason t)))
     \<and> breached (sla (doc_of (addRating e sc fb t)))
     \<and> breached (sla (doc_of (save_ticket e t)))
     \<and> breached (sla (run_ticket_ops xs t))"
proof
  assume b: "breached (sla t)"
  note step = apply_ticket_op_breached [OF b, of e]
  from step [of "AddComment body who internal atts"] step [of "AssignToAgent who"]
    step [of "Resolve body who"] step [of "Reopen reason"] step [of "AddRating sc fb"]
    step [of SaveTicket] run_ticket_ops_breached [OF b, of xs]
  show "breached (sla (doc_of (addComment e body who internal atts t)))
     \<and> breached (sla (doc_of (assignToAgent e who t)))
     \<and> breached (sla (doc_of (resolve e body who t)))
     \<and> breached (sla (doc_of (reopen e reason t)))
     \<and> breached (sla (doc_of (addRating e sc fb t)))
     \<and> breached (sla (doc_of (save_ticket e t)))
     \<and> breached (sla (run_ticket_ops xs t))"
    by simp
qed

theorem breach_flag_monotone_witness:
  "breached (sla breached_ticket)
   \<and> breached (sla (doc_of (addComment (env_at 3600000) ''on it'' (ObjectId 2) False [] breached_ticket)))
   \<and> breached (sla (doc_of (resolve (env_at 3600000) ''fixed'' (ObjectId 2) breached_ticket)))
   \<and> breached (sla (doc_of (reopen (env_at 3600000) (Some ''still broken'') breached_ticket)))
   \<and> breached (sla (run_ticket_ops
        [(env_at 3600000, AddComment ''on it'' (ObjectId 2) False []),
         (env_at 5400000, Resolve ''fixed'' (ObjectId 2)),
         (env_at 7200000, AddRating 5 None),
         (env_at 9000000, Reopen (Some ''still broken''))] breached_ticket))"
  using breach_flag_monotone [of breached_ticket "env_at 3600000" "''on it''" "ObjectId 2" False "[]"
      "Some ''still broken''" 5 None
      "[(env_at 3600000, AddComment ''on it'' (ObjectId 2) False []),
        (env_at 5400000, Resolve ''fixed'' (ObjectId 2)),
        (env_at 7200000, AddRating 5 None),
        (env_at 9000000, Reopen (Some ''still broken''))]"]
    breach_flag_monotone [of breached_ticket "env_at 3600000" "''fixed''" "ObjectId 2" False "[]"
      "Some ''still broken''" 5 None "[]"]
  by (simp add: breached_ticket_def)

end
